theory Spec2Isabelle
  imports Main "HOL-Library.AList"
begin

section \<open>Python values\<close>

text \<open>
  The values that travel through \<^verbatim>\<open>server.py\<close>: tool arguments, query parameters,
  JSON bodies and decoded upstream responses. They are the values a JSON document
  decodes to in Python. A \<^verbatim>\<open>str\<close> is a list of characters with code points below 256;
  a \<^verbatim>\<open>dict\<close> is an association list in insertion order (the decoder and item
  assignment never repeat a key). Floating-point numbers are outside the model.
\<close>

datatype pyval =
    PNone
  | PBool bool
  | PInt int
  | PStr string
  | PList "pyval list"
  | PDict "(string \<times> pyval) list"

text \<open>
  The exceptions that can reach \<^verbatim>\<open>call_tool\<close>. \<open>HTTPError\<close> carries the status of
  the response it was raised for and its message; \<open>RequestException\<close> stands for
  the network-level failures of the HTTP library (connection, timeout, too many
  redirects, undecodable body); \<open>OtherException\<close> for anything else the transport
  raises.
\<close>

datatype py_exception =
    KeyError string
  | TypeError string
  | ValueError string
  | HTTPError int string
  | RequestException string
  | OtherException string

definition nl :: char where
  "nl = CHR 0x0A"

definition cr :: char where
  "cr = CHR 0x0D"

definition tab :: char where
  "tab = CHR 0x09"

definition squote :: char where
  "squote = CHR 0x27"

definition dquote :: char where
  "dquote = CHR 0x22"

definition backslash :: char where
  "backslash = CHR 0x5C"

definition hex_digit :: "nat \<Rightarrow> char" where
  "hex_digit n = ''0123456789abcdef'' ! (n mod 16)"

definition hex2 :: "nat \<Rightarrow> string" where
  "hex2 n = [hex_digit (n div 16), hex_digit (n mod 16)]"

function dec_digits :: "nat \<Rightarrow> string" where
  "dec_digits n =
     (if n < 10 then [hex_digit n] else dec_digits (n div 10) @ [hex_digit (n mod 10)])"
  by pat_completeness auto
termination
  by (relation "measure id") auto

declare dec_digits.simps [simp del]

text \<open>\<^verbatim>\<open>int.__repr__\<close>: what an f-string and \<^verbatim>\<open>json.dumps\<close> print for an integer.\<close>

definition int_repr :: "int \<Rightarrow> string" where
  "int_repr i = (if i < 0 then CHR ''-'' # dec_digits (nat (- i)) else dec_digits (nat i))"

text \<open>\<^verbatim>\<open>sep.join(parts)\<close>.\<close>

fun join :: "string \<Rightarrow> string list \<Rightarrow> string" where
  "join sep [] = []"
| "join sep [x] = x"
| "join sep (x # y # ys) = x @ sep @ join sep (y # ys)"

text \<open>Truthiness, as \<^verbatim>\<open>if domain:\<close>, \<^verbatim>\<open>if limit:\<close> and \<^verbatim>\<open>if message:\<close> test it.\<close>

fun py_truthy :: "pyval \<Rightarrow> bool" where
  "py_truthy PNone = False"
| "py_truthy (PBool b) = b"
| "py_truthy (PInt i) = (i \<noteq> 0)"
| "py_truthy (PStr s) = (s \<noteq> [])"
| "py_truthy (PList xs) = (xs \<noteq> [])"
| "py_truthy (PDict kvs) = (kvs \<noteq> [])"

text \<open>\<^verbatim>\<open>len(result)\<close>: a \<^verbatim>\<open>TypeError\<close> for a value that has no length.\<close>

fun py_len :: "pyval \<Rightarrow> py_exception + nat" where
  "py_len PNone = Inl (TypeError ''object of type 'NoneType' has no len()'')"
| "py_len (PBool b) = Inl (TypeError ''object of type 'bool' has no len()'')"
| "py_len (PInt i) = Inl (TypeError ''object of type 'int' has no len()'')"
| "py_len (PStr s) = Inr (length s)"
| "py_len (PList xs) = Inr (length xs)"
| "py_len (PDict kvs) = Inr (length kvs)"

text \<open>
  \<^verbatim>\<open>repr\<close> of a \<^verbatim>\<open>str\<close>: single quotes, unless the text holds a single quote and no
  double quote; the quote and the backslash are escaped, control characters and the
  unprintable characters of Latin-1 are written in hexadecimal.
\<close>

definition repr_char :: "char \<Rightarrow> char \<Rightarrow> string" where
  "repr_char q c =
     (let n = (of_char c :: nat) in
      if c = q \<or> c = backslash then [backslash, c]
      else if c = tab then [backslash, CHR ''t'']
      else if c = nl then [backslash, CHR ''n'']
      else if c = cr then [backslash, CHR ''r'']
      else if n < 32 \<or> n = 127 then [backslash, CHR ''x''] @ hex2 n
      else if n < 127 then [c]
      else if 161 \<le> n \<and> n \<noteq> 173 then [c]
      else [backslash, CHR ''x''] @ hex2 n)"

definition str_repr :: "string \<Rightarrow> string" where
  "str_repr s =
     (let q = (if squote \<in> set s \<and> dquote \<notin> set s then dquote else squote)
      in q # concat (map (repr_char q) s) @ [q])"

fun py_repr :: "pyval \<Rightarrow> string"
  and py_repr_items :: "pyval list \<Rightarrow> string list"
  and py_repr_members :: "(string \<times> pyval) list \<Rightarrow> string list" where
  "py_repr PNone = ''None''"
| "py_repr (PBool b) = (if b then ''True'' else ''False'')"
| "py_repr (PInt i) = int_repr i"
| "py_repr (PStr s) = str_repr s"
| "py_repr (PList xs) = ''['' @ join '', '' (py_repr_items xs) @ '']''"
| "py_repr (PDict kvs) = ''{'' @ join '', '' (py_repr_members kvs) @ ''}''"
| "py_repr_items [] = []"
| "py_repr_items (x # xs) = py_repr x # py_repr_items xs"
| "py_repr_members [] = []"
| "py_repr_members ((k, v) # kvs) = (str_repr k @ '': '' @ py_repr v) # py_repr_members kvs"

text \<open>\<^verbatim>\<open>str(v)\<close>, which a replacement field \<^verbatim>\<open>{v}\<close> of an f-string applies.\<close>

fun py_str :: "pyval \<Rightarrow> string" where
  "py_str (PStr s) = s"
| "py_str v = py_repr v"

text \<open>\<^verbatim>\<open>str(e)\<close>: a \<^verbatim>\<open>KeyError\<close> prints the \<^verbatim>\<open>repr\<close> of its key, the others their message.\<close>

fun exn_str :: "py_exception \<Rightarrow> string" where
  "exn_str (KeyError k) = str_repr k"
| "exn_str (TypeError m) = m"
| "exn_str (ValueError m) = m"
| "exn_str (HTTPError st m) = m"
| "exn_str (RequestException m) = m"
| "exn_str (OtherException m) = m"

section \<open>The result formatter\<close>

text \<open>
  \<^verbatim>\<open>json.dumps(data, indent=2)\<close>: the default \<^verbatim>\<open>ensure_ascii\<close> escapes every character
  outside the printable ASCII range; with an indent the item separator is a comma
  followed by a line break and the indentation of the current level, and an empty
  list or dict is printed closed on one line.
\<close>

definition json_escape_char :: "char \<Rightarrow> string" where
  "json_escape_char c =
     (let n = (of_char c :: nat) in
      if c = dquote then [backslash, dquote]
      else if c = backslash then [backslash, backslash]
      else if c = nl then [backslash, CHR ''n'']
      else if c = cr then [backslash, CHR ''r'']
      else if c = tab then [backslash, CHR ''t'']
      else if n = 8 then [backslash, CHR ''b'']
      else if n = 12 then [backslash, CHR ''f'']
      else if 32 \<le> n \<and> n \<le> 126 then [c]
      else [backslash, CHR ''u'', CHR ''0'', CHR ''0''] @ hex2 n)"

definition json_string :: "string \<Rightarrow> string" where
  "json_string s = dquote # concat (map json_escape_char s) @ [dquote]"

definition newline_indent :: "nat \<Rightarrow> string" where
  "newline_indent lvl = nl # replicate (2 * lvl) CHR '' ''"

fun dumps :: "nat \<Rightarrow> pyval \<Rightarrow> string"
  and dumps_items :: "nat \<Rightarrow> pyval list \<Rightarrow> string list"
  and dumps_members :: "nat \<Rightarrow> (string \<times> pyval) list \<Rightarrow> string list" where
  "dumps lvl PNone = ''null''"
| "dumps lvl (PBool b) = (if b then ''true'' else ''false'')"
| "dumps lvl (PInt i) = int_repr i"
| "dumps lvl (PStr s) = json_string s"
| "dumps lvl (PList xs) =
     (if xs = [] then ''[]''
      else ''['' @ newline_indent (Suc lvl)
           @ join ('','' @ newline_indent (Suc lvl)) (dumps_items (Suc lvl) xs)
           @ newline_indent lvl @ '']'')"
| "dumps lvl (PDict kvs) =
     (if kvs = [] then ''{}''
      else ''{'' @ newline_indent (Suc lvl)
           @ join ('','' @ newline_indent (Suc lvl)) (dumps_members (Suc lvl) kvs)
           @ newline_indent lvl @ ''}'')"
| "dumps_items lvl [] = []"
| "dumps_items lvl (x # xs) = dumps lvl x # dumps_items lvl xs"
| "dumps_members lvl [] = []"
| "dumps_members lvl ((k, v) # kvs) =
     (json_string k @ '': '' @ dumps lvl v) # dumps_members lvl kvs"

definition format_json :: "pyval \<Rightarrow> string" where
  "format_json data = dumps 0 data"

section \<open>The transport client\<close>

text \<open>
  One call of \<^verbatim>\<open>session.request(method, url, **kwargs)\<close>: the keyword arguments
  \<^verbatim>\<open>params\<close> and \<^verbatim>\<open>json\<close> are optional, the headers, the credentials and the TLS
  policy are those of the session.
\<close>

record http_request =
  rq_method :: string
  rq_url :: string
  rq_params :: "(string \<times> pyval) list option"
  rq_json :: "pyval option"
  rq_headers :: "(string \<times> string) list"
  rq_auth :: "string \<times> string"
  rq_verify :: bool

text \<open>
  The response object: \<open>content\<close> is the raw body, \<open>json_decoded\<close> what
  \<^verbatim>\<open>response.json()\<close> returns or raises for it.
\<close>

record http_response =
  status_code :: int
  reason :: string
  resp_url :: string
  content :: string
  json_decoded :: "py_exception + pyval"

text \<open>
  The upstream as the client sees it: \<^verbatim>\<open>session.request\<close> either raises or returns a
  response.
\<close>

type_synonym transport = "http_request \<Rightarrow> py_exception + http_response"

text \<open>
  \<^verbatim>\<open>response.raise_for_status()\<close> of the HTTP library: an \<^verbatim>\<open>HTTPError\<close> for a status
  from 400 to 599, nothing for any other status.
\<close>

definition raise_for_status :: "http_response \<Rightarrow> py_exception + unit" where
  "raise_for_status resp =
     (if 400 \<le> status_code resp \<and> status_code resp < 500 then
        Inl (HTTPError (status_code resp)
              (int_repr (status_code resp) @ '' Client Error: '' @ reason resp
               @ '' for url: '' @ resp_url resp))
      else if 500 \<le> status_code resp \<and> status_code resp < 600 then
        Inl (HTTPError (status_code resp)
              (int_repr (status_code resp) @ '' Server Error: '' @ reason resp
               @ '' for url: '' @ resp_url resp))
      else Inr ())"

record session =
  s_auth :: "string \<times> string"
  s_verify :: bool
  s_headers :: "(string \<times> string) list"

record UIMClient =
  base_url :: string
  auth :: "string \<times> string"
  verify_ssl :: bool
  session :: session

definition rstrip :: "char \<Rightarrow> string \<Rightarrow> string" where
  "rstrip ch s = rev (dropWhile (\<lambda>c. c = ch) (rev s))"

definition lstrip :: "char \<Rightarrow> string \<Rightarrow> string" where
  "lstrip ch s = dropWhile (\<lambda>c. c = ch) s"

text \<open>
  \<^verbatim>\<open>UIMClient.__init__\<close>. \<open>default_headers\<close> are the headers a fresh
  \<^verbatim>\<open>requests.Session()\<close> starts with; the two common headers are written over them.
\<close>

definition UIMClient_init ::
  "(string \<times> string) list \<Rightarrow> string \<Rightarrow> string \<Rightarrow> string \<Rightarrow> bool \<Rightarrow> UIMClient" where
  "UIMClient_init default_headers url username password verify =
     \<lparr>base_url = rstrip CHR ''/'' url,
      auth = (username, password),
      verify_ssl = verify,
      session =
        \<lparr>s_auth = (username, password),
         s_verify = verify,
         s_headers =
           AList.update ''Content-Type'' ''application/json''
             (AList.update ''Accept'' ''application/json'' default_headers)\<rparr>\<rparr>"

text \<open>
  A computation that may raise and that issues HTTP requests: its outcome, and the
  requests it sent, in order.
\<close>

type_synonym 'a io = "(py_exception + 'a) \<times> http_request list"

text \<open>
  The request \<^verbatim>\<open>session.request(method, url, **kwargs)\<close> sends for
  \<^verbatim>\<open>url = f"{self.base_url}/{endpoint.lstrip('/')}"\<close>: the session's headers,
  credentials and TLS policy are merged into it.
\<close>

definition build_request ::
  "UIMClient \<Rightarrow> string \<Rightarrow> string \<Rightarrow> (string \<times> pyval) list option \<Rightarrow> pyval option
     \<Rightarrow> http_request" where
  "build_request c meth endpoint ps js =
     \<lparr>rq_method = meth,
      rq_url = base_url c @ ''/'' @ lstrip CHR ''/'' endpoint,
      rq_params = ps,
      rq_json = js,
      rq_headers = s_headers (session c),
      rq_auth = s_auth (session c),
      rq_verify = s_verify (session c)\<rparr>"

text \<open>
  \<^verbatim>\<open>UIMClient._make_request\<close>. The handler of \<^verbatim>\<open>RequestException\<close> logs and raises the
  exception again, and any other exception passes through it, so every failure of the
  three statements of the \<^verbatim>\<open>try\<close> block leaves the method as it was raised.
\<close>

definition make_request ::
  "UIMClient \<Rightarrow> transport \<Rightarrow> string \<Rightarrow> string \<Rightarrow> (string \<times> pyval) list option
     \<Rightarrow> pyval option \<Rightarrow> pyval io" where
  "make_request c t meth endpoint ps js =
     (let rq = build_request c meth endpoint ps js
      in ((case t rq of
             Inl e \<Rightarrow> Inl e
           | Inr resp \<Rightarrow>
               (case raise_for_status resp of
                  Inl e \<Rightarrow> Inl e
                | Inr u \<Rightarrow> if content resp \<noteq> [] then json_decoded resp else Inr (PDict []))),
          [rq]))"

text \<open>The value a request carries for a query parameter, and for a header.\<close>

definition query_param :: "http_request \<Rightarrow> string \<Rightarrow> pyval option" where
  "query_param rq k = (case rq_params rq of None \<Rightarrow> None | Some ps \<Rightarrow> map_of ps k)"

definition header :: "http_request \<Rightarrow> string \<Rightarrow> string option" where
  "header rq k = map_of (rq_headers rq) k"

definition get_devices :: "UIMClient \<Rightarrow> transport \<Rightarrow> pyval \<Rightarrow> pyval \<Rightarrow> pyval io" where
  "get_devices c t domain hub =
     (let params = [];
          params = (if py_truthy domain then AList.update ''domain'' domain params else params);
          params = (if py_truthy hub then AList.update ''hub'' hub params else params)
      in make_request c t ''GET'' ''/devices'' (Some params) None)"

definition get_device_info :: "UIMClient \<Rightarrow> transport \<Rightarrow> pyval \<Rightarrow> pyval io" where
  "get_device_info c t device_id =
     make_request c t ''GET'' (''/devices/'' @ py_str device_id) None None"

definition get_alarms :: "UIMClient \<Rightarrow> transport \<Rightarrow> pyval \<Rightarrow> pyval \<Rightarrow> pyval \<Rightarrow> pyval io" where
  "get_alarms c t severity source limit =
     (let params = [];
          params = (if py_truthy limit then AList.update ''limit'' limit params else params);
          params = (if severity \<noteq> PNone then AList.update ''severity'' severity params
                    else params);
          params = (if py_truthy source then AList.update ''source'' source params else params)
      in make_request c t ''GET'' ''/alarms'' (Some params) None)"

definition get_alarm_summary :: "UIMClient \<Rightarrow> transport \<Rightarrow> pyval io" where
  "get_alarm_summary c t = make_request c t ''GET'' ''/alarms/summary'' None None"

definition acknowledge_alarm :: "UIMClient \<Rightarrow> transport \<Rightarrow> pyval \<Rightarrow> pyval \<Rightarrow> pyval io" where
  "acknowledge_alarm c t alarm_id message =
     (let payload = [];
          payload = (if py_truthy message then AList.update ''message'' message payload
                     else payload)
      in make_request c t ''PUT'' (''/alarms/'' @ py_str alarm_id @ ''/ack'') None
           (Some (PDict payload)))"

definition accept_alarm :: "UIMClient \<Rightarrow> transport \<Rightarrow> pyval \<Rightarrow> pyval io" where
  "accept_alarm c t alarm_id =
     make_request c t ''PUT'' (''/alarms/'' @ py_str alarm_id @ ''/accept'') None None"

definition assign_alarm :: "UIMClient \<Rightarrow> transport \<Rightarrow> pyval \<Rightarrow> pyval \<Rightarrow> pyval io" where
  "assign_alarm c t alarm_id username =
     make_request c t ''PUT''
       (''/alarms/'' @ py_str alarm_id @ ''/assign/'' @ py_str username) None None"

definition get_metrics :: "UIMClient \<Rightarrow> transport \<Rightarrow> pyval io" where
  "get_metrics c t = make_request c t ''GET'' ''/metrics'' None None"

definition get_metric_definitions :: "UIMClient \<Rightarrow> transport \<Rightarrow> pyval io" where
  "get_metric_definitions c t =
     make_request c t ''GET'' ''/configuration_items/metricdefinitions'' None None"

definition get_metric_by_id :: "UIMClient \<Rightarrow> transport \<Rightarrow> pyval \<Rightarrow> pyval io" where
  "get_metric_by_id c t metric_id =
     make_request c t ''GET'' (''/configuration_items/metrics/'' @ py_str metric_id) None None"

definition get_probes :: "UIMClient \<Rightarrow> transport \<Rightarrow> pyval io" where
  "get_probes c t = make_request c t ''GET'' ''/probes'' None None"

definition get_robots :: "UIMClient \<Rightarrow> transport \<Rightarrow> pyval io" where
  "get_robots c t = make_request c t ''GET'' ''/robots'' None None"

section \<open>Startup\<close>

text \<open>
  \<^verbatim>\<open>str.lower()\<close> on characters below 256: the ASCII capitals and the Latin-1 capitals
  (all of 0xC0 to 0xDE but the multiplication sign) move 32 places up.
\<close>

definition lower_char :: "char \<Rightarrow> char" where
  "lower_char c =
     (let n = (of_char c :: nat) in
      if (65 \<le> n \<and> n \<le> 90) \<or> (192 \<le> n \<and> n \<le> 222 \<and> n \<noteq> 215) then char_of (n + 32) else c)"

definition py_lower :: "string \<Rightarrow> string" where
  "py_lower s = map lower_char s"

text \<open>The process environment, after \<^verbatim>\<open>load_dotenv()\<close>: \<^verbatim>\<open>os.getenv\<close> looks a name up.\<close>

type_synonym environ = "string \<rightharpoonup> string"

text \<open>Truthiness of what \<^verbatim>\<open>os.getenv\<close> returns: \<^verbatim>\<open>None\<close> and the empty string are false.\<close>

fun env_truthy :: "string option \<Rightarrow> bool" where
  "env_truthy None = False"
| "env_truthy (Some s) = (s \<noteq> [])"

definition missing_env_message :: string where
  "missing_env_message =
     ''Missing required environment variables: UIM_BASE_URL, UIM_USERNAME, UIM_PASSWORD''"

text \<open>
  \<^verbatim>\<open>init_uim_client\<close>: the value it stores in the global \<^verbatim>\<open>uim_client\<close>, or the
  \<^verbatim>\<open>ValueError\<close> it raises.
\<close>

definition init_uim_client :: "(string \<times> string) list \<Rightarrow> environ \<Rightarrow> py_exception + UIMClient" where
  "init_uim_client default_headers env =
     (let url = env ''UIM_BASE_URL'';
          username = env ''UIM_USERNAME'';
          password = env ''UIM_PASSWORD'';
          verify =
            (py_lower (case env ''UIM_VERIFY_SSL'' of None \<Rightarrow> ''true'' | Some v \<Rightarrow> v) = ''true'')
      in if \<not> list_all env_truthy [url, username, password] then
           Inl (ValueError missing_env_message)
         else
           (case (url, username, password) of
              (Some b, Some u, Some p) \<Rightarrow> Inr (UIMClient_init default_headers b u p verify)
            | _ \<Rightarrow> Inl (ValueError missing_env_message)))"

text \<open>
  \<^verbatim>\<open>main\<close>: an exception of the initialisation is logged and raised again, so the
  server loop is not entered; otherwise the loop runs with the global \<^verbatim>\<open>uim_client\<close>
  set. The result is that exception, or the global the calls are served with.
\<close>

definition main :: "(string \<times> string) list \<Rightarrow> environ \<Rightarrow> py_exception + UIMClient option" where
  "main default_headers env =
     (case init_uim_client default_headers env of
        Inl e \<Rightarrow> Inl e
      | Inr c \<Rightarrow> Inr (Some c))"

section \<open>The dispatcher\<close>

datatype TextContent = TextContent (content_type: string) (content_text: string)

text \<open>The argument object of a call: a mapping from argument names to values.\<close>

type_synonym arguments = "string \<rightharpoonup> pyval"

text \<open>\<^verbatim>\<open>arguments.get(k)\<close>, \<^verbatim>\<open>arguments.get(k, d)\<close> and \<^verbatim>\<open>arguments[k]\<close>.\<close>

definition args_get :: "arguments \<Rightarrow> string \<Rightarrow> pyval" where
  "args_get a k = (case a k of None \<Rightarrow> PNone | Some v \<Rightarrow> v)"

definition args_get_default :: "arguments \<Rightarrow> string \<Rightarrow> pyval \<Rightarrow> pyval" where
  "args_get_default a k d = (case a k of None \<Rightarrow> d | Some v \<Rightarrow> v)"

definition args_item :: "arguments \<Rightarrow> string \<Rightarrow> py_exception + pyval" where
  "args_item a k = (case a k of None \<Rightarrow> Inl (KeyError k) | Some v \<Rightarrow> Inr v)"

text \<open>
  The two shapes of response text: \<^verbatim>\<open>f"Found {len(result)} <noun>:\n\n{format_json(result)}"\<close>
  and \<^verbatim>\<open>f"<title>\n\n{format_json(result)}"\<close>.
\<close>

definition found_text :: "string \<Rightarrow> pyval \<Rightarrow> py_exception + string" where
  "found_text noun result =
     (case py_len result of
        Inl e \<Rightarrow> Inl e
      | Inr n \<Rightarrow>
          Inr (''Found '' @ int_repr (int n) @ '' '' @ noun @ '':'' @ [nl, nl] @ format_json result))"

definition titled_text :: "string \<Rightarrow> pyval \<Rightarrow> py_exception + string" where
  "titled_text title result = Inr (title @ [nl, nl] @ format_json result)"

text \<open>
  A client call followed by the rendering of its result: an exception of either
  leaves the \<^verbatim>\<open>try\<close> block, and the requests sent so far stay sent.
\<close>

definition respond :: "pyval io \<Rightarrow> (pyval \<Rightarrow> py_exception + string) \<Rightarrow> TextContent list io" where
  "respond r render =
     (case r of
        (Inl e, reqs) \<Rightarrow> (Inl e, reqs)
      | (Inr result, reqs) \<Rightarrow>
          (case render result of
             Inl e \<Rightarrow> (Inl e, reqs)
           | Inr txt \<Rightarrow> (Inr [TextContent ''text'' txt], reqs)))"

text \<open>The body of the \<^verbatim>\<open>try\<close> block of \<^verbatim>\<open>call_tool\<close>, branch by branch.\<close>

definition call_tool_try ::
  "UIMClient \<Rightarrow> transport \<Rightarrow> string \<Rightarrow> arguments \<Rightarrow> TextContent list io" where
  "call_tool_try c t name arguments =
     (if name = ''list_devices'' then
        respond (get_devices c t (args_get arguments ''domain'') (args_get arguments ''hub''))
          (found_text ''devices'')
      else if name = ''get_device_info'' then
        (case args_item arguments ''device_id'' of
           Inl e \<Rightarrow> (Inl e, [])
         | Inr device_id \<Rightarrow>
             respond (get_device_info c t device_id) (titled_text ''Device Information:''))
      else if name = ''list_alarms'' then
        respond (get_alarms c t (args_get arguments ''severity'') (args_get arguments ''source'')
                   (args_get_default arguments ''limit'' (PInt 100)))
          (found_text ''alarms'')
      else if name = ''get_alarm_summary'' then
        respond (get_alarm_summary c t) (titled_text ''Alarm Summary:'')
      else if name = ''acknowledge_alarm'' then
        (case args_item arguments ''alarm_id'' of
           Inl e \<Rightarrow> (Inl e, [])
         | Inr alarm_id \<Rightarrow>
             respond (acknowledge_alarm c t alarm_id (args_get arguments ''message''))
               (titled_text ''Alarm acknowledged successfully:''))
      else if name = ''accept_alarm'' then
        (case args_item arguments ''alarm_id'' of
           Inl e \<Rightarrow> (Inl e, [])
         | Inr alarm_id \<Rightarrow>
             respond (accept_alarm c t alarm_id) (titled_text ''Alarm accepted successfully:''))
      else if name = ''assign_alarm'' then
        (case args_item arguments ''alarm_id'' of
           Inl e \<Rightarrow> (Inl e, [])
         | Inr alarm_id \<Rightarrow>
             (case args_item arguments ''username'' of
                Inl e \<Rightarrow> (Inl e, [])
              | Inr username \<Rightarrow>
                  respond (assign_alarm c t alarm_id username)
                    (titled_text (''Alarm assigned successfully to '' @ py_str username @ '':''))))
      else if name = ''list_metrics'' then
        respond (get_metrics c t) (found_text ''metrics'')
      else if name = ''get_metric_definitions'' then
        respond (get_metric_definitions c t) (titled_text ''Metric Definitions:'')
      else if name = ''get_metric_by_id'' then
        (case args_item arguments ''metric_id'' of
           Inl e \<Rightarrow> (Inl e, [])
         | Inr metric_id \<Rightarrow>
             respond (get_metric_by_id c t metric_id) (titled_text ''Metric Data:''))
      else if name = ''list_probes'' then
        respond (get_probes c t) (found_text ''probes'')
      else if name = ''list_robots'' then
        respond (get_robots c t) (found_text ''robots'')
      else
        (Inr [TextContent ''text'' (''Error: Unknown tool '' @ [squote] @ name @ [squote])], []))"

text \<open>
  \<^verbatim>\<open>call_tool\<close>: the guard on the global \<^verbatim>\<open>uim_client\<close>, then the \<^verbatim>\<open>try\<close> block with
  its handler \<^verbatim>\<open>except Exception\<close>. The result is the response and the HTTP requests
  the call sent.
\<close>

definition call_tool ::
  "UIMClient option \<Rightarrow> transport \<Rightarrow> string \<Rightarrow> arguments \<Rightarrow> TextContent list \<times> http_request list" where
  "call_tool uim_client t name arguments =
     (case uim_client of
        None \<Rightarrow>
          ([TextContent ''text''
              ''Error: UIM client not initialized. Please check environment variables.''], [])
      | Some c \<Rightarrow>
          (case call_tool_try c t name arguments of
             (Inl e, reqs) \<Rightarrow> ([TextContent ''text'' (''Error: '' @ exn_str e)], reqs)
           | (Inr response, reqs) \<Rightarrow> (response, reqs)))"

text \<open>
  What \<^verbatim>\<open>list_tools\<close> declares: the names of the twelve tools, in its order, and
  for each tool the arguments its input schema lists under \<^verbatim>\<open>required\<close>.
\<close>

definition tool_names :: "string list" where
  "tool_names =
     [''list_devices'', ''get_device_info'', ''list_alarms'', ''get_alarm_summary'',
      ''acknowledge_alarm'', ''accept_alarm'', ''assign_alarm'', ''list_metrics'',
      ''get_metric_definitions'', ''get_metric_by_id'', ''list_probes'', ''list_robots'']"

definition required_arguments :: "string \<Rightarrow> string list" where
  "required_arguments name =
     (if name = ''get_device_info'' then [''device_id'']
      else if name = ''acknowledge_alarm'' then [''alarm_id'']
      else if name = ''accept_alarm'' then [''alarm_id'']
      else if name = ''assign_alarm'' then [''alarm_id'', ''username'']
      else if name = ''get_metric_by_id'' then [''metric_id'']
      else [])"

section \<open>Concrete inputs\<close>

definition example_client :: UIMClient where
  "example_client = UIMClient_init [] ''https://uim.example:8443/'' ''admin'' ''secret'' True"

text \<open>An upstream that answers every request with the given status and decoded body.\<close>

definition stub_response :: "int \<Rightarrow> string \<Rightarrow> string \<Rightarrow> pyval \<Rightarrow> http_response" where
  "stub_response st rsn body v =
     \<lparr>status_code = st, reason = rsn, resp_url = ''https://uim.example:8443/'',
      content = body, json_decoded = Inr v\<rparr>"

definition stub_upstream :: "int \<Rightarrow> string \<Rightarrow> string \<Rightarrow> pyval \<Rightarrow> transport" where
  "stub_upstream st rsn body v = (\<lambda>rq. Inr (stub_response st rsn body v))"

text \<open>An upstream that cannot be reached.\<close>

definition unreachable_upstream :: transport where
  "unreachable_upstream = (\<lambda>rq. Inl (RequestException ''Connection refused''))"

text \<open>A response whose body is not JSON: \<^verbatim>\<open>response.json()\<close> raises for it.\<close>

definition undecodable_response :: http_response where
  "undecodable_response =
     \<lparr>status_code = 200, reason = ''OK'', resp_url = ''https://uim.example:8443/'',
      content = ''<html>'',
      json_decoded = Inl (RequestException ''Expecting value: line 1 column 1 (char 0)'')\<rparr>"

section \<open>Auxiliary facts\<close>

lemmas eval_defs = call_tool_def call_tool_try_def respond_def found_text_def titled_text_def
  args_get_def args_get_default_def args_item_def
  get_devices_def get_device_info_def get_alarms_def get_alarm_summary_def acknowledge_alarm_def
  accept_alarm_def assign_alarm_def get_metrics_def get_metric_definitions_def get_metric_by_id_def
  get_probes_def get_robots_def make_request_def build_request_def raise_for_status_def
  example_client_def UIMClient_init_def stub_upstream_def stub_response_def unreachable_upstream_def
  rstrip_def lstrip_def Let_def format_json_def int_repr_def dec_digits.simps hex_digit_def
  str_repr_def repr_char_def squote_def dquote_def backslash_def nl_def cr_def tab_def
  newline_indent_def json_string_def json_escape_char_def query_param_def header_def hex2_def

lemmas client_defs = get_devices_def get_device_info_def get_alarms_def get_alarm_summary_def
  acknowledge_alarm_def accept_alarm_def assign_alarm_def get_metrics_def
  get_metric_definitions_def get_metric_by_id_def get_probes_def get_robots_def

lemma snd_respond: "snd (respond r f) = snd r"
  by (simp add: respond_def split: prod.splits sum.splits)

lemma snd_make_request: "snd (make_request c t m ep ps js) = [build_request c m ep ps js]"
  by (simp add: make_request_def Let_def)

lemma fst_make_request:
  "fst (make_request c t m ep ps js) =
     (case t (build_request c m ep ps js) of
        Inl e \<Rightarrow> Inl e
      | Inr resp \<Rightarrow>
          (case raise_for_status resp of
             Inl e \<Rightarrow> Inl e
           | Inr u \<Rightarrow> if content resp \<noteq> [] then json_decoded resp else Inr (PDict [])))"
  by (simp add: make_request_def Let_def)

lemma snd_call_tool: "snd (call_tool (Some c) t name a) = snd (call_tool_try c t name a)"
  by (simp add: call_tool_def split: prod.splits sum.splits)

lemma respond_shape:
  "respond r f = (Inr resp, reqs) \<Longrightarrow> \<exists>body. resp = [TextContent ''text'' body]"
  by (auto simp: respond_def split: prod.splits sum.splits)

lemma call_tool_try_shape:
  "call_tool_try c t name a = (Inr resp, reqs) \<Longrightarrow> \<exists>body. resp = [TextContent ''text'' body]"
  unfolding call_tool_try_def
  by (auto split: if_splits sum.splits dest: respond_shape)

lemma requests_carry_session_headers:
  "rq \<in> set (snd (call_tool_try c t name a)) \<Longrightarrow> rq_headers rq = s_headers (session c)"
  unfolding call_tool_try_def
  by (auto simp: snd_respond client_defs Let_def snd_make_request build_request_def
      split: if_splits sum.splits)

lemma str_repr_plain [simp]:
  "str_repr ''device_id'' = [squote] @ ''device_id'' @ [squote]"
  "str_repr ''alarm_id'' = [squote] @ ''alarm_id'' @ [squote]"
  "str_repr ''username'' = [squote] @ ''username'' @ [squote]"
  "str_repr ''metric_id'' = [squote] @ ''metric_id'' @ [squote]"
  by (simp_all add: str_repr_def repr_char_def squote_def dquote_def backslash_def tab_def
      nl_def cr_def Let_def)

lemma make_request_raises:
  "fst (make_request c t m ep ps js) = Inl e \<Longrightarrow>
   make_request c t m ep ps js = (Inl e, [build_request c m ep ps js])"
  by (simp add: make_request_def Let_def)

lemma known_tool_cases:
  "name \<in> set tool_names \<Longrightarrow>
   name = ''list_devices'' \<or> name = ''get_device_info'' \<or>
   name = ''list_alarms'' \<or> name = ''get_alarm_summary'' \<or>
   name = ''acknowledge_alarm'' \<or> name = ''accept_alarm'' \<or>
   name = ''assign_alarm'' \<or> name = ''list_metrics'' \<or>
   name = ''get_metric_definitions'' \<or> name = ''get_metric_by_id'' \<or>
   name = ''list_probes'' \<or> name = ''list_robots''"
  by (simp add: tool_names_def)

lemma extraction_failure_reported:
  assumes known: "name \<in> set tool_names"
    and missing: "\<exists>k \<in> set (required_arguments name). arguments k = None"
  shows "\<exists>k \<in> set (required_arguments name).
           call_tool (Some c) t name arguments
             = ([TextContent ''text'' (''Error: '' @ exn_str (KeyError k))], [])"
proof -
  note cases = known_tool_cases [OF known]
  have c1: "name = ''list_devices'' \<Longrightarrow> ?thesis"
    using missing by (simp add: required_arguments_def)
  have c2: "name = ''get_device_info'' \<Longrightarrow> ?thesis"
    using missing
    by (auto simp add: required_arguments_def call_tool_def call_tool_try_def args_item_def
        split: option.splits)
  have c3: "name = ''list_alarms'' \<Longrightarrow> ?thesis"
    using missing by (simp add: required_arguments_def)
  have c4: "name = ''get_alarm_summary'' \<Longrightarrow> ?thesis"
    using missing by (simp add: required_arguments_def)
  have c5: "name = ''acknowledge_alarm'' \<Longrightarrow> ?thesis"
    using missing
    by (auto simp add: required_arguments_def call_tool_def call_tool_try_def args_item_def
        split: option.splits)
  have c6: "name = ''accept_alarm'' \<Longrightarrow> ?thesis"
    using missing
    by (auto simp add: required_arguments_def call_tool_def call_tool_try_def args_item_def
        split: option.splits)
  have c7: "name = ''assign_alarm'' \<Longrightarrow> ?thesis"
    using missing
    by (auto simp add: required_arguments_def call_tool_def call_tool_try_def args_item_def
        split: option.splits)
  have c8: "name = ''list_metrics'' \<Longrightarrow> ?thesis"
    using missing by (simp add: required_arguments_def)
  have c9: "name = ''get_metric_definitions'' \<Longrightarrow> ?thesis"
    using missing by (simp add: required_arguments_def)
  have c10: "name = ''get_metric_by_id'' \<Longrightarrow> ?thesis"
    using missing
    by (auto simp add: required_arguments_def call_tool_def call_tool_try_def args_item_def
        split: option.splits)
  have c11: "name = ''list_probes'' \<Longrightarrow> ?thesis"
    using missing by (simp add: required_arguments_def)
  have c12: "name = ''list_robots'' \<Longrightarrow> ?thesis"
    using missing by (simp add: required_arguments_def)
  from cases show ?thesis
    by (elim disjE) (erule c1 c2 c3 c4 c5 c6 c7 c8 c9 c10 c11 c12)+
qed

lemma client_failure_reported:
  assumes mr: "\<And>m ep ps js. fst (make_request c t m ep ps js) = Inl e"
    and known: "name \<in> set tool_names"
    and present: "\<forall>k \<in> set (required_arguments name). arguments k \<noteq> None"
  shows "fst (call_tool (Some c) t name arguments)
           = [TextContent ''text'' (''Error: '' @ exn_str e)]"
proof -
  have raises: "\<And>m ep ps js. make_request c t m ep ps js
      = (Inl e, [build_request c m ep ps js])"
    using mr by (rule make_request_raises)
  note cases = known_tool_cases [OF known]
  have c1: "name = ''list_devices'' \<Longrightarrow> ?thesis"
    by (simp add: call_tool_def call_tool_try_def get_devices_def Let_def respond_def raises)
  have c2: "name = ''get_device_info'' \<Longrightarrow> ?thesis"
    using present
    by (auto simp add: required_arguments_def call_tool_def call_tool_try_def get_device_info_def
        Let_def respond_def args_item_def raises split: option.splits)
  have c3: "name = ''list_alarms'' \<Longrightarrow> ?thesis"
    by (simp add: call_tool_def call_tool_try_def get_alarms_def Let_def respond_def raises)
  have c4: "name = ''get_alarm_summary'' \<Longrightarrow> ?thesis"
    by (simp add: call_tool_def call_tool_try_def get_alarm_summary_def Let_def respond_def raises)
  have c5: "name = ''acknowledge_alarm'' \<Longrightarrow> ?thesis"
    using present
    by (auto simp add: required_arguments_def call_tool_def call_tool_try_def acknowledge_alarm_def
        Let_def respond_def args_item_def raises split: option.splits)
  have c6: "name = ''accept_alarm'' \<Longrightarrow> ?thesis"
    using present
    by (auto simp add: required_arguments_def call_tool_def call_tool_try_def accept_alarm_def
        Let_def respond_def args_item_def raises split: option.splits)
  have c7: "name = ''assign_alarm'' \<Longrightarrow> ?thesis"
    using present
    by (auto simp add: required_arguments_def call_tool_def call_tool_try_def assign_alarm_def
        Let_def respond_def args_item_def raises split: option.splits)
  have c8: "name = ''list_metrics'' \<Longrightarrow> ?thesis"
    by (simp add: call_tool_def call_tool_try_def get_metrics_def Let_def respond_def raises)
  have c9: "name = ''get_metric_definitions'' \<Longrightarrow> ?thesis"
    by (simp add: call_tool_def call_tool_try_def get_metric_definitions_def Let_def respond_def raises)
  have c10: "name = ''get_metric_by_id'' \<Longrightarrow> ?thesis"
    using present
    by (auto simp add: required_arguments_def call_tool_def call_tool_try_def get_metric_by_id_def
        Let_def respond_def args_item_def raises split: option.splits)
  have c11: "name = ''list_probes'' \<Longrightarrow> ?thesis"
    by (simp add: call_tool_def call_tool_try_def get_probes_def Let_def respond_def raises)
  have c12: "name = ''list_robots'' \<Longrightarrow> ?thesis"
    by (simp add: call_tool_def call_tool_try_def get_robots_def Let_def respond_def raises)
  from cases show ?thesis
    by (elim disjE) (erule c1 c2 c3 c4 c5 c6 c7 c8 c9 c10 c11 c12)+
qed

lemma rendering_failure_reported:
  assumes "raise_for_status resp = Inr ()" and "content resp \<noteq> []"
    and "json_decoded resp = Inr v" and len: "py_len v = Inl e"
    and lst: "name \<in> set [''list_devices'', ''list_alarms'', ''list_metrics'', ''list_probes'',
           ''list_robots'']"
  shows "fst (call_tool (Some c) (\<lambda>rq. Inr resp) name arguments)
           = [TextContent ''text'' (''Error: '' @ exn_str e)]"
proof -
  have mr: "\<And>m ep ps js. make_request c (\<lambda>rq. Inr resp) m ep ps js
      = (Inr v, [build_request c m ep ps js])"
    using assms(1,2,3) by (simp add: make_request_def Let_def)
  from lst have cases: "name = ''list_devices'' \<or> name = ''list_alarms'' \<or> name = ''list_metrics''
      \<or> name = ''list_probes'' \<or> name = ''list_robots''"
    by simp
  have c1: "name = ''list_devices'' \<Longrightarrow> ?thesis"
    by (simp add: call_tool_def call_tool_try_def get_devices_def Let_def respond_def found_text_def
        mr len)
  have c2: "name = ''list_alarms'' \<Longrightarrow> ?thesis"
    by (simp add: call_tool_def call_tool_try_def get_alarms_def Let_def respond_def found_text_def
        mr len)
  have c3: "name = ''list_metrics'' \<Longrightarrow> ?thesis"
    by (simp add: call_tool_def call_tool_try_def get_metrics_def Let_def respond_def found_text_def
        mr len)
  have c4: "name = ''list_probes'' \<Longrightarrow> ?thesis"
    by (simp add: call_tool_def call_tool_try_def get_probes_def Let_def respond_def found_text_def
        mr len)
  have c5: "name = ''list_robots'' \<Longrightarrow> ?thesis"
    by (simp add: call_tool_def call_tool_try_def get_robots_def Let_def respond_def found_text_def
        mr len)
  from cases show ?thesis
    by (elim disjE) (erule c1 c2 c3 c4 c5)+
qed

section \<open>The dispatcher's error channel\<close>

text \<open>
  C1. For every one of the twelve known operations and every argument object, an
  exception raised in the \<^verbatim>\<open>try\<close> block of \<^verbatim>\<open>call_tool\<close> ends as the single text
  \<^verbatim>\<open>Error: <message>\<close>, wherever it is raised:
  \<^item> while extracting arguments: a required argument is absent, and the response is the
    text of the \<^verbatim>\<open>KeyError\<close>, with no request sent;
  \<^item> while invoking the client: the transport fails, or the upstream answers with an
    error status, or the body cannot be decoded;
  \<^item> while rendering the result: \<^verbatim>\<open>len(result)\<close> fails in a list-shaped operation;
  \<^item> and whatever else leaves the \<^verbatim>\<open>try\<close> block, for any operation name.
  \<^verbatim>\<open>call_tool\<close> itself always returns a response: no exception leaves it.
\<close>

theorem call_tool_catches_exceptions:
  "(name \<in> set tool_names \<and> (\<exists>k \<in> set (required_arguments name). arguments k = None) \<longrightarrow>
      (\<exists>k \<in> set (required_arguments name).
         call_tool (Some c) t name arguments
           = ([TextContent ''text'' (''Error: '' @ exn_str (KeyError k))], [])))
   \<and> (name \<in> set tool_names \<and> (\<forall>k \<in> set (required_arguments name). arguments k \<noteq> None) \<longrightarrow>
      fst (call_tool (Some c) (\<lambda>rq. Inl e) name arguments)
        = [TextContent ''text'' (''Error: '' @ exn_str e)])
   \<and> (name \<in> set tool_names \<and> (\<forall>k \<in> set (required_arguments name). arguments k \<noteq> None)
        \<and> raise_for_status resp = Inl e \<longrightarrow>
      fst (call_tool (Some c) (\<lambda>rq. Inr resp) name arguments)
        = [TextContent ''text'' (''Error: '' @ exn_str e)])
   \<and> (name \<in> set tool_names \<and> (\<forall>k \<in> set (required_arguments name). arguments k \<noteq> None)
        \<and> raise_for_status resp = Inr () \<and> content resp \<noteq> [] \<and> json_decoded resp = Inl e \<longrightarrow>
      fst (call_tool (Some c) (\<lambda>rq. Inr resp) name arguments)
        = [TextContent ''text'' (''Error: '' @ exn_str e)])
   \<and> (name \<in> set [''list_devices'', ''list_alarms'', ''list_metrics'', ''list_probes'',
          ''list_robots'']
        \<and> raise_for_status resp = Inr () \<and> content resp \<noteq> [] \<and> json_decoded resp = Inr v
        \<and> py_len v = Inl e \<longrightarrow>
      fst (call_tool (Some c) (\<lambda>rq. Inr resp) name arguments)
        = [TextContent ''text'' (''Error: '' @ exn_str e)])
   \<and> (call_tool_try c t name arguments = (Inl e, reqs) \<longrightarrow>
      call_tool (Some c) t name arguments
        = ([TextContent ''text'' (''Error: '' @ exn_str e)], reqs))"
proof -
  have 1: "name \<in> set tool_names \<and> (\<exists>k \<in> set (required_arguments name). arguments k = None) \<longrightarrow>
      (\<exists>k \<in> set (required_arguments name).
         call_tool (Some c) t name arguments
           = ([TextContent ''text'' (''Error: '' @ exn_str (KeyError k))], []))"
    using extraction_failure_reported by blast
  have 2: "name \<in> set tool_names \<and> (\<forall>k \<in> set (required_arguments name). arguments k \<noteq> None) \<longrightarrow>
      fst (call_tool (Some c) (\<lambda>rq. Inl e) name arguments)
        = [TextContent ''text'' (''Error: '' @ exn_str e)]"
  proof
    assume h: "name \<in> set tool_names
      \<and> (\<forall>k \<in> set (required_arguments name). arguments k \<noteq> None)"
    have "\<And>m ep ps js. fst (make_request c (\<lambda>rq. Inl e) m ep ps js) = Inl e"
      by (simp add: fst_make_request)
    with h show "fst (call_tool (Some c) (\<lambda>rq. Inl e) name arguments)
        = [TextContent ''text'' (''Error: '' @ exn_str e)]"
      by (simp add: client_failure_reported)
  qed
  have 3: "name \<in> set tool_names \<and> (\<forall>k \<in> set (required_arguments name). arguments k \<noteq> None)
        \<and> raise_for_status resp = Inl e \<longrightarrow>
      fst (call_tool (Some c) (\<lambda>rq. Inr resp) name arguments)
        = [TextContent ''text'' (''Error: '' @ exn_str e)]"
  proof
    assume h: "name \<in> set tool_names
      \<and> (\<forall>k \<in> set (required_arguments name). arguments k \<noteq> None)
      \<and> raise_for_status resp = Inl e"
    then have "\<And>m ep ps js. fst (make_request c (\<lambda>rq. Inr resp) m ep ps js) = Inl e"
      by (simp add: fst_make_request)
    with h show "fst (call_tool (Some c) (\<lambda>rq. Inr resp) name arguments)
        = [TextContent ''text'' (''Error: '' @ exn_str e)]"
      by (simp add: client_failure_reported)
  qed
  have 4: "name \<in> set tool_names \<and> (\<forall>k \<in> set (required_arguments name). arguments k \<noteq> None)
        \<and> raise_for_status resp = Inr () \<and> content resp \<noteq> [] \<and> json_decoded resp = Inl e \<longrightarrow>
      fst (call_tool (Some c) (\<lambda>rq. Inr resp) name arguments)
        = [TextContent ''text'' (''Error: '' @ exn_str e)]"
  proof
    assume h: "name \<in> set tool_names
      \<and> (\<forall>k \<in> set (required_arguments name). arguments k \<noteq> None)
      \<and> raise_for_status resp = Inr () \<and> content resp \<noteq> [] \<and> json_decoded resp = Inl e"
    then have "\<And>m ep ps js. fst (make_request c (\<lambda>rq. Inr resp) m ep ps js) = Inl e"
      by (simp add: fst_make_request)
    with h show "fst (call_tool (Some c) (\<lambda>rq. Inr resp) name arguments)
        = [TextContent ''text'' (''Error: '' @ exn_str e)]"
      by (simp add: client_failure_reported)
  qed
  have 5: "name \<in> set [''list_devices'', ''list_alarms'', ''list_metrics'', ''list_probes'',
          ''list_robots'']
        \<and> raise_for_status resp = Inr () \<and> content resp \<noteq> [] \<and> json_decoded resp = Inr v
        \<and> py_len v = Inl e \<longrightarrow>
      fst (call_tool (Some c) (\<lambda>rq. Inr resp) name arguments)
        = [TextContent ''text'' (''Error: '' @ exn_str e)]"
    using rendering_failure_reported by blast
  have 6: "call_tool_try c t name arguments = (Inl e, reqs) \<longrightarrow>
      call_tool (Some c) t name arguments
        = ([TextContent ''text'' (''Error: '' @ exn_str e)], reqs)"
    by (simp add: call_tool_def)
  from 1 2 3 4 5 6 show ?thesis by blast
qed

theorem call_tool_catches_exceptions_witness:
  "(''get_device_info'' \<in> set tool_names
    \<and> required_arguments ''get_device_info'' = [''device_id'']
    \<and> (Map.empty :: arguments) ''device_id'' = None
    \<and> call_tool (Some example_client) unreachable_upstream ''get_device_info'' Map.empty
        = ([TextContent ''text'' (''Error: '' @ exn_str (KeyError ''device_id''))], []))
   \<and> (''acknowledge_alarm'' \<in> set tool_names
    \<and> required_arguments ''acknowledge_alarm'' = [''alarm_id'']
    \<and> [''alarm_id'' \<mapsto> PStr ''A1''] ''alarm_id'' = Some (PStr ''A1'')
    \<and> fst (call_tool (Some example_client) (\<lambda>rq. Inl (RequestException ''Connection refused''))
          ''acknowledge_alarm'' [''alarm_id'' \<mapsto> PStr ''A1''])
        = [TextContent ''text'' ''Error: Connection refused''])
   \<and> (''list_probes'' \<in> set tool_names
    \<and> required_arguments ''list_probes'' = []
    \<and> raise_for_status (stub_response 500 ''Internal Server Error'' [] PNone)
        = Inl (HTTPError 500
            ''500 Server Error: Internal Server Error for url: https://uim.example:8443/'')
    \<and> fst (call_tool (Some example_client)
          (\<lambda>rq. Inr (stub_response 500 ''Internal Server Error'' [] PNone))
          ''list_probes'' Map.empty)
        = [TextContent ''text''
            ''Error: 500 Server Error: Internal Server Error for url: https://uim.example:8443/''])
   \<and> (''get_alarm_summary'' \<in> set tool_names
    \<and> required_arguments ''get_alarm_summary'' = []
    \<and> raise_for_status undecodable_response = Inr ()
    \<and> content undecodable_response \<noteq> []
    \<and> json_decoded undecodable_response
        = Inl (RequestException ''Expecting value: line 1 column 1 (char 0)'')
    \<and> fst (call_tool (Some example_client) (\<lambda>rq. Inr undecodable_response)
          ''get_alarm_summary'' Map.empty)
        = [TextContent ''text'' ''Error: Expecting value: line 1 column 1 (char 0)''])
   \<and> (''list_robots'' \<in> set [''list_devices'', ''list_alarms'', ''list_metrics'', ''list_probes'',
          ''list_robots'']
    \<and> raise_for_status (stub_response 200 ''OK'' ''3'' (PInt 3)) = Inr ()
    \<and> content (stub_response 200 ''OK'' ''3'' (PInt 3)) \<noteq> []
    \<and> json_decoded (stub_response 200 ''OK'' ''3'' (PInt 3)) = Inr (PInt 3)
    \<and> py_len (PInt 3) = Inl (TypeError ''object of type 'int' has no len()'')
    \<and> fst (call_tool (Some example_client) (\<lambda>rq. Inr (stub_response 200 ''OK'' ''3'' (PInt 3)))
          ''list_robots'' Map.empty)
        = [TextContent ''text''
            (''Error: '' @ exn_str (TypeError ''object of type 'int' has no len()''))])
   \<and> (call_tool_try example_client unreachable_upstream ''list_probes'' Map.empty
        = (Inl (RequestException ''Connection refused''),
           [build_request example_client ''GET'' ''/probes'' None None])
    \<and> call_tool (Some example_client) unreachable_upstream ''list_probes'' Map.empty
        = ([TextContent ''text''
              (''Error: '' @ exn_str (RequestException ''Connection refused''))],
           [build_request example_client ''GET'' ''/probes'' None None]))"
proof -
  have w1: "''get_device_info'' \<in> set tool_names
    \<and> required_arguments ''get_device_info'' = [''device_id'']
    \<and> (Map.empty :: arguments) ''device_id'' = None
    \<and> call_tool (Some example_client) unreachable_upstream ''get_device_info'' Map.empty
        = ([TextContent ''text'' (''Error: '' @ exn_str (KeyError ''device_id''))], [])"
    using call_tool_catches_exceptions [where name = "''get_device_info''"
        and arguments = Map.empty and c = example_client and t = unreachable_upstream]
    by (simp add: tool_names_def required_arguments_def)
  have w2: "''acknowledge_alarm'' \<in> set tool_names
    \<and> required_arguments ''acknowledge_alarm'' = [''alarm_id'']
    \<and> [''alarm_id'' \<mapsto> PStr ''A1''] ''alarm_id'' = Some (PStr ''A1'')
    \<and> fst (call_tool (Some example_client) (\<lambda>rq. Inl (RequestException ''Connection refused''))
          ''acknowledge_alarm'' [''alarm_id'' \<mapsto> PStr ''A1''])
        = [TextContent ''text'' ''Error: Connection refused'']"
    using call_tool_catches_exceptions [where name = "''acknowledge_alarm''"
        and arguments = "[''alarm_id'' \<mapsto> PStr ''A1'']" and c = example_client
        and e = "RequestException ''Connection refused''"]
    by (simp add: tool_names_def required_arguments_def)
  have w3: "''list_probes'' \<in> set tool_names
    \<and> required_arguments ''list_probes'' = []
    \<and> raise_for_status (stub_response 500 ''Internal Server Error'' [] PNone)
        = Inl (HTTPError 500
            ''500 Server Error: Internal Server Error for url: https://uim.example:8443/'')
    \<and> fst (call_tool (Some example_client)
          (\<lambda>rq. Inr (stub_response 500 ''Internal Server Error'' [] PNone))
          ''list_probes'' Map.empty)
        = [TextContent ''text''
            ''Error: 500 Server Error: Internal Server Error for url: https://uim.example:8443/'']"
    using call_tool_catches_exceptions [where name = "''list_probes''"
        and arguments = Map.empty and c = example_client
        and resp = "stub_response 500 ''Internal Server Error'' [] PNone"
        and e = "HTTPError 500
            ''500 Server Error: Internal Server Error for url: https://uim.example:8443/''"]
    by (simp add: tool_names_def required_arguments_def raise_for_status_def stub_response_def
        int_repr_def dec_digits.simps hex_digit_def)
  have w4: "''get_alarm_summary'' \<in> set tool_names
    \<and> required_arguments ''get_alarm_summary'' = []
    \<and> raise_for_status undecodable_response = Inr ()
    \<and> content undecodable_response \<noteq> []
    \<and> json_decoded undecodable_response
        = Inl (RequestException ''Expecting value: line 1 column 1 (char 0)'')
    \<and> fst (call_tool (Some example_client) (\<lambda>rq. Inr undecodable_response)
          ''get_alarm_summary'' Map.empty)
        = [TextContent ''text'' ''Error: Expecting value: line 1 column 1 (char 0)'']"
    using call_tool_catches_exceptions [where name = "''get_alarm_summary''"
        and arguments = Map.empty and c = example_client and resp = undecodable_response
        and e = "RequestException ''Expecting value: line 1 column 1 (char 0)''"]
    by (simp add: tool_names_def required_arguments_def raise_for_status_def
        undecodable_response_def)
  have w5: "''list_robots'' \<in> set [''list_devices'', ''list_alarms'', ''list_metrics'',
          ''list_probes'', ''list_robots'']
    \<and> raise_for_status (stub_response 200 ''OK'' ''3'' (PInt 3)) = Inr ()
    \<and> content (stub_response 200 ''OK'' ''3'' (PInt 3)) \<noteq> []
    \<and> json_decoded (stub_response 200 ''OK'' ''3'' (PInt 3)) = Inr (PInt 3)
    \<and> py_len (PInt 3) = Inl (TypeError ''object of type 'int' has no len()'')
    \<and> fst (call_tool (Some example_client) (\<lambda>rq. Inr (stub_response 200 ''OK'' ''3'' (PInt 3)))
          ''list_robots'' Map.empty)
        = [TextContent ''text''
            (''Error: '' @ exn_str (TypeError ''object of type 'int' has no len()''))]"
    using call_tool_catches_exceptions [where name = "''list_robots''"
        and arguments = Map.empty and c = example_client
        and resp = "stub_response 200 ''OK'' ''3'' (PInt 3)" and v = "PInt 3"
        and e = "TypeError ''object of type 'int' has no len()''"]
    by (simp add: raise_for_status_def stub_response_def)
  have h6: "call_tool_try example_client unreachable_upstream ''list_probes'' Map.empty
     = (Inl (RequestException ''Connection refused''),
        [build_request example_client ''GET'' ''/probes'' None None])"
    by (simp add: call_tool_try_def get_probes_def make_request_def respond_def Let_def
        unreachable_upstream_def)
  have w6: "call_tool_try example_client unreachable_upstream ''list_probes'' Map.empty
        = (Inl (RequestException ''Connection refused''),
           [build_request example_client ''GET'' ''/probes'' None None])
    \<and> call_tool (Some example_client) unreachable_upstream ''list_probes'' Map.empty
        = ([TextContent ''text''
              (''Error: '' @ exn_str (RequestException ''Connection refused''))],
           [build_request example_client ''GET'' ''/probes'' None None])"
    using h6 call_tool_catches_exceptions [where name = "''list_probes''"
        and arguments = Map.empty and c = example_client and t = unreachable_upstream
        and e = "RequestException ''Connection refused''"
        and reqs = "[build_request example_client ''GET'' ''/probes'' None None]"]
    by blast
  from w1 w2 w3 w4 w5 w6 show ?thesis by blast
qed

text \<open>
  C2. With the global client unset, every call, whatever its operation name and
  arguments, returns exactly one error response and sends no HTTP request.
\<close>

theorem uninitialized_client_error_no_request:
  "call_tool None t name arguments =
     ([TextContent ''text''
         ''Error: UIM client not initialized. Please check environment variables.''], [])"
  by (simp add: call_tool_def)

text \<open>
  C10. For every operation name, known or not, every argument object, every state of
  the global client and every upstream, the value \<^verbatim>\<open>call_tool\<close> returns is a list of
  exactly one element, a text content.
\<close>

theorem call_tool_single_text_response:
  "\<exists>body. fst (call_tool uim_client t name arguments) = [TextContent ''text'' body]"
proof (cases uim_client)
  case None
  then show ?thesis by (simp add: call_tool_def)
next
  case (Some c)
  obtain r reqs where tr: "call_tool_try c t name arguments = (r, reqs)"
    by (cases "call_tool_try c t name arguments")
  show ?thesis
  proof (cases r)
    case (Inl e)
    with Some tr show ?thesis by (simp add: call_tool_def)
  next
    case (Inr resp)
    with tr call_tool_try_shape obtain body where "resp = [TextContent ''text'' body]"
      by blast
    with Some tr Inr show ?thesis by (simp add: call_tool_def)
  qed
qed

text \<open>
  C6, as the claim states it, fails: what the caller receives for a missing
  \<^verbatim>\<open>device_id\<close> is the text of the low-level \<^verbatim>\<open>KeyError\<close> itself, the quoted key and
  nothing else. The dispatcher does not validate arguments; the same response text
  results when \<^verbatim>\<open>device_id\<close> is supplied and the transport raises that \<^verbatim>\<open>KeyError\<close>.
\<close>

theorem missing_argument_low_level_text_counterexample:
  "call_tool (Some example_client) unreachable_upstream ''get_device_info'' Map.empty
     = ([TextContent ''text'' (''Error: '' @ exn_str (KeyError ''device_id''))], [])
   \<and> exn_str (KeyError ''device_id'') = [squote] @ ''device_id'' @ [squote]
   \<and> fst (call_tool (Some example_client) (\<lambda>rq. Inl (KeyError ''device_id''))
        ''get_device_info'' [''device_id'' \<mapsto> PStr ''D1''])
     = fst (call_tool (Some example_client) unreachable_upstream ''get_device_info'' Map.empty)"
  by (simp add: call_tool_def call_tool_try_def args_item_def get_device_info_def
      make_request_def respond_def Let_def)

text \<open>
  C6, amended. When a required argument is absent from the argument object, the call
  returns the single response \<^verbatim>\<open>Error: '<name>'\<close>, which is the text of the low-level
  \<^verbatim>\<open>KeyError\<close> (the quoted name of the missing argument, without further
  description), and no HTTP request is sent for that call. This covers \<^verbatim>\<open>device_id\<close>
  of \<^verbatim>\<open>get_device_info\<close>, \<^verbatim>\<open>alarm_id\<close> of the three alarm operations, \<^verbatim>\<open>username\<close> of
  \<^verbatim>\<open>assign_alarm\<close> and \<^verbatim>\<open>metric_id\<close> of \<^verbatim>\<open>get_metric_by_id\<close>.
\<close>

theorem missing_required_argument_error:
  "(arguments ''device_id'' = None \<longrightarrow>
      call_tool (Some c) t ''get_device_info'' arguments
        = ([TextContent ''text'' (''Error: '' @ [squote] @ ''device_id'' @ [squote])], []))
   \<and> (arguments ''alarm_id'' = None \<longrightarrow>
      call_tool (Some c) t ''acknowledge_alarm'' arguments
        = ([TextContent ''text'' (''Error: '' @ [squote] @ ''alarm_id'' @ [squote])], []))
   \<and> (arguments ''alarm_id'' = None \<longrightarrow>
      call_tool (Some c) t ''accept_alarm'' arguments
        = ([TextContent ''text'' (''Error: '' @ [squote] @ ''alarm_id'' @ [squote])], []))
   \<and> (arguments ''alarm_id'' = None \<longrightarrow>
      call_tool (Some c) t ''assign_alarm'' arguments
        = ([TextContent ''text'' (''Error: '' @ [squote] @ ''alarm_id'' @ [squote])], []))
   \<and> (arguments ''alarm_id'' \<noteq> None \<and> arguments ''username'' = None \<longrightarrow>
      call_tool (Some c) t ''assign_alarm'' arguments
        = ([TextContent ''text'' (''Error: '' @ [squote] @ ''username'' @ [squote])], []))
   \<and> (arguments ''metric_id'' = None \<longrightarrow>
      call_tool (Some c) t ''get_metric_by_id'' arguments
        = ([TextContent ''text'' (''Error: '' @ [squote] @ ''metric_id'' @ [squote])], []))"
  by (auto simp add: call_tool_def call_tool_try_def args_item_def)

theorem missing_required_argument_error_witness:
  "(Map.empty :: arguments) ''device_id'' = None
   \<and> call_tool (Some example_client) unreachable_upstream ''get_device_info'' Map.empty
        = ([TextContent ''text'' (''Error: '' @ [squote] @ ''device_id'' @ [squote])], [])
   \<and> (Map.empty :: arguments) ''alarm_id'' = None
   \<and> call_tool (Some example_client) unreachable_upstream ''acknowledge_alarm'' Map.empty
        = ([TextContent ''text'' (''Error: '' @ [squote] @ ''alarm_id'' @ [squote])], [])
   \<and> (Map.empty :: arguments) ''metric_id'' = None
   \<and> call_tool (Some example_client) unreachable_upstream ''get_metric_by_id'' Map.empty
        = ([TextContent ''text'' (''Error: '' @ [squote] @ ''metric_id'' @ [squote])], [])
   \<and> [''alarm_id'' \<mapsto> PStr ''A1''] ''alarm_id'' \<noteq> None
   \<and> [''alarm_id'' \<mapsto> PStr ''A1''] ''username'' = None
   \<and> call_tool (Some example_client) unreachable_upstream ''assign_alarm''
        [''alarm_id'' \<mapsto> PStr ''A1'']
        = ([TextContent ''text'' (''Error: '' @ [squote] @ ''username'' @ [squote])], [])"
  using missing_required_argument_error [of Map.empty example_client unreachable_upstream]
    missing_required_argument_error
      [of "[''alarm_id'' \<mapsto> PStr ''A1'']" example_client unreachable_upstream]
  by simp

section \<open>Rendering of list-shaped results\<close>



section \<open>Request shapes\<close>

text \<open>
  C4, as the claim states it, fails: a message that is supplied but empty is sent as
  the body \<^verbatim>\<open>{}\<close>, not as \<^verbatim>\<open>{"message": ""}\<close>, because \<^verbatim>\<open>acknowledge_alarm\<close> tests
  the truthiness of the message.
\<close>

theorem acknowledge_empty_message_counterexample:
  "map rq_json (snd (call_tool (Some example_client) (stub_upstream 200 ''OK'' [] PNone)
      ''acknowledge_alarm'' [''alarm_id'' \<mapsto> PStr ''A1'', ''message'' \<mapsto> PStr []]))
     = [Some (PDict [])]
   \<and> map rq_json (snd (call_tool (Some example_client) (stub_upstream 200 ''OK'' [] PNone)
      ''acknowledge_alarm'' [''alarm_id'' \<mapsto> PStr ''A1'', ''message'' \<mapsto> PStr []]))
     \<noteq> [Some (PDict [(''message'', PStr [])])]"
  by (simp add: eval_defs)

text \<open>
  C4, amended. For every \<^verbatim>\<open>alarm_id\<close>, \<^verbatim>\<open>acknowledge_alarm\<close> sends exactly one request,
  a PUT to \<^verbatim>\<open>/alarms/{id}/ack\<close>, whose JSON body is \<^verbatim>\<open>{"message": m}\<close> when the message
  \<open>m\<close> is truthy (for a string: not empty) and \<^verbatim>\<open>{}\<close> when the message is absent,
  \<^verbatim>\<open>None\<close> or otherwise falsy.
\<close>

theorem acknowledge_alarm_request:
  assumes "arguments ''alarm_id'' = Some alarm_id"
  shows "map (\<lambda>rq. (rq_method rq, rq_url rq, rq_json rq))
           (snd (call_tool (Some c) t ''acknowledge_alarm'' arguments))
      = [(''PUT'', base_url c @ ''/alarms/'' @ py_str alarm_id @ ''/ack'',
          Some (PDict (if py_truthy (args_get arguments ''message'')
                       then [(''message'', args_get arguments ''message'')] else [])))]"
proof -
  have "snd (call_tool (Some c) t ''acknowledge_alarm'' arguments)
      = snd (acknowledge_alarm c t alarm_id (args_get arguments ''message''))"
    using assms by (simp add: snd_call_tool call_tool_try_def args_item_def snd_respond)
  then show ?thesis
    by (simp add: acknowledge_alarm_def Let_def snd_make_request build_request_def lstrip_def)
qed

theorem acknowledge_alarm_request_witness:
  "[''alarm_id'' \<mapsto> PStr ''A1'', ''message'' \<mapsto> PStr ''x''] ''alarm_id'' = Some (PStr ''A1'')
   \<and> map (\<lambda>rq. (rq_method rq, rq_url rq, rq_json rq))
        (snd (call_tool (Some example_client) unreachable_upstream ''acknowledge_alarm''
           [''alarm_id'' \<mapsto> PStr ''A1'', ''message'' \<mapsto> PStr ''x'']))
      = [(''PUT'', ''https://uim.example:8443/alarms/A1/ack'',
          Some (PDict [(''message'', PStr ''x'')]))]
   \<and> [''alarm_id'' \<mapsto> PStr ''A1''] ''alarm_id'' = Some (PStr ''A1'')
   \<and> map (\<lambda>rq. (rq_method rq, rq_url rq, rq_json rq))
        (snd (call_tool (Some example_client) unreachable_upstream ''acknowledge_alarm''
           [''alarm_id'' \<mapsto> PStr ''A1'']))
      = [(''PUT'', ''https://uim.example:8443/alarms/A1/ack'', Some (PDict []))]"
proof -
  have h: "[''alarm_id'' \<mapsto> PStr ''A1'', ''message'' \<mapsto> PStr ''x''] ''alarm_id''
      = Some (PStr ''A1'')"
    by simp
  have k: "[''alarm_id'' \<mapsto> PStr ''A1''] ''alarm_id'' = Some (PStr ''A1'')"
    by simp
  show ?thesis
    using h k
      acknowledge_alarm_request [where arguments = "[''alarm_id'' \<mapsto> PStr ''A1'',
        ''message'' \<mapsto> PStr ''x'']" and alarm_id = "PStr ''A1''" and c = example_client
        and t = unreachable_upstream]
      acknowledge_alarm_request [where arguments = "[''alarm_id'' \<mapsto> PStr ''A1'']"
        and alarm_id = "PStr ''A1''" and c = example_client and t = unreachable_upstream]
    by (simp add: args_get_def example_client_def UIMClient_init_def rstrip_def)
qed

text \<open>
  C5. A \<^verbatim>\<open>list_alarms\<close> call sends one request. When \<^verbatim>\<open>severity\<close> is supplied as an
  integer \<open>n\<close> (0 included), the request carries the query parameter \<^verbatim>\<open>severity = n\<close>;
  when \<^verbatim>\<open>severity\<close> is omitted, the request carries no \<^verbatim>\<open>severity\<close> parameter; when
  \<^verbatim>\<open>limit\<close> is omitted, the request carries \<^verbatim>\<open>limit = 100\<close>.
\<close>

theorem list_alarms_query_parameters:
  "map (\<lambda>rq. query_param rq ''severity'')
     (snd (call_tool (Some c) t ''list_alarms'' (arguments(''severity'' \<mapsto> PInt n))))
     = [Some (PInt n)]
   \<and> map (\<lambda>rq. query_param rq ''severity'')
     (snd (call_tool (Some c) t ''list_alarms'' (arguments(''severity'' := None))))
     = [None]
   \<and> map (\<lambda>rq. query_param rq ''limit'')
     (snd (call_tool (Some c) t ''list_alarms'' (arguments(''limit'' := None))))
     = [Some (PInt 100)]"
proof -
  have rq: "\<And>a. snd (call_tool (Some c) t ''list_alarms'' a)
      = snd (get_alarms c t (args_get a ''severity'') (args_get a ''source'')
               (args_get_default a ''limit'' (PInt 100)))"
    by (simp add: snd_call_tool call_tool_try_def snd_respond)
  have qp: "\<And>sev src lim k. map (\<lambda>rq. query_param rq k) (snd (get_alarms c t sev src lim))
      = [((if py_truthy lim then [''limit'' \<mapsto> lim] else Map.empty)
           ++ (if sev \<noteq> PNone then [''severity'' \<mapsto> sev] else Map.empty)
           ++ (if py_truthy src then [''source'' \<mapsto> src] else Map.empty)) k]"
    by (auto simp add: get_alarms_def Let_def snd_make_request build_request_def query_param_def
        map_add_def)
  show ?thesis
    by (simp add: rq qp args_get_def args_get_default_def map_add_def)
qed


section \<open>Transport failures\<close>




section \<open>Startup\<close>

text \<open>
  C8, as the claim states it, fails twice: the error of \<^verbatim>\<open>init_uim_client\<close> is one
  fixed message that lists all three variables, whichever of them is missing, so it
  does not tell which are missing; and a variable that is present but empty makes the
  initialisation fail as an absent one does.
\<close>

theorem startup_error_message_counterexample:
  "init_uim_client []
     [''UIM_BASE_URL'' \<mapsto> ''https://uim.example:8443/'', ''UIM_USERNAME'' \<mapsto> ''admin'']
     = Inl (ValueError
         ''Missing required environment variables: UIM_BASE_URL, UIM_USERNAME, UIM_PASSWORD'')
   \<and> init_uim_client [] [''UIM_USERNAME'' \<mapsto> ''admin'', ''UIM_PASSWORD'' \<mapsto> ''secret'']
     = Inl (ValueError
         ''Missing required environment variables: UIM_BASE_URL, UIM_USERNAME, UIM_PASSWORD'')
   \<and> init_uim_client []
     [''UIM_BASE_URL'' \<mapsto> [], ''UIM_USERNAME'' \<mapsto> ''admin'', ''UIM_PASSWORD'' \<mapsto> ''secret'']
     = Inl (ValueError
         ''Missing required environment variables: UIM_BASE_URL, UIM_USERNAME, UIM_PASSWORD'')"
  by (simp add: init_uim_client_def missing_env_message_def Let_def)

text \<open>
  C8, amended. At startup, if any of \<^verbatim>\<open>UIM_BASE_URL\<close>, \<^verbatim>\<open>UIM_USERNAME\<close>,
  \<^verbatim>\<open>UIM_PASSWORD\<close> is absent or empty, the initialisation raises a \<^verbatim>\<open>ValueError\<close>
  before any call is served, with the fixed message that names all three required
  variables; if all three are present and not empty, the initialisation succeeds and
  the calls are served with the client constructed from them.
\<close>

theorem startup_contract:
  "(\<not> (env_truthy (env ''UIM_BASE_URL'') \<and> env_truthy (env ''UIM_USERNAME'')
        \<and> env_truthy (env ''UIM_PASSWORD'')) \<longrightarrow>
      main default_headers env
        = Inl (ValueError
            ''Missing required environment variables: UIM_BASE_URL, UIM_USERNAME, UIM_PASSWORD''))
   \<and> (env ''UIM_BASE_URL'' = Some b \<and> b \<noteq> [] \<and> env ''UIM_USERNAME'' = Some u \<and> u \<noteq> []
        \<and> env ''UIM_PASSWORD'' = Some p \<and> p \<noteq> [] \<longrightarrow>
      main default_headers env
        = Inr (Some (UIMClient_init default_headers b u p
            (py_lower (case env ''UIM_VERIFY_SSL'' of None \<Rightarrow> ''true'' | Some v \<Rightarrow> v)
              = ''true''))))"
  by (auto simp add: main_def init_uim_client_def missing_env_message_def Let_def
      split: option.splits)

theorem startup_contract_witness:
  "\<not> (env_truthy ([''UIM_BASE_URL'' \<mapsto> ''https://uim.example:8443/'',
          ''UIM_USERNAME'' \<mapsto> ''admin''] ''UIM_BASE_URL'')
      \<and> env_truthy ([''UIM_BASE_URL'' \<mapsto> ''https://uim.example:8443/'',
          ''UIM_USERNAME'' \<mapsto> ''admin''] ''UIM_USERNAME'')
      \<and> env_truthy ([''UIM_BASE_URL'' \<mapsto> ''https://uim.example:8443/'',
          ''UIM_USERNAME'' \<mapsto> ''admin''] ''UIM_PASSWORD''))
   \<and> main [] [''UIM_BASE_URL'' \<mapsto> ''https://uim.example:8443/'', ''UIM_USERNAME'' \<mapsto> ''admin'']
     = Inl (ValueError
         ''Missing required environment variables: UIM_BASE_URL, UIM_USERNAME, UIM_PASSWORD'')
   \<and> [''UIM_BASE_URL'' \<mapsto> ''https://uim.example:8443/'', ''UIM_USERNAME'' \<mapsto> ''admin'',
       ''UIM_PASSWORD'' \<mapsto> ''secret''] ''UIM_BASE_URL'' = Some ''https://uim.example:8443/''
   \<and> [''UIM_BASE_URL'' \<mapsto> ''https://uim.example:8443/'', ''UIM_USERNAME'' \<mapsto> ''admin'',
       ''UIM_PASSWORD'' \<mapsto> ''secret''] ''UIM_USERNAME'' = Some ''admin''
   \<and> [''UIM_BASE_URL'' \<mapsto> ''https://uim.example:8443/'', ''UIM_USERNAME'' \<mapsto> ''admin'',
       ''UIM_PASSWORD'' \<mapsto> ''secret''] ''UIM_PASSWORD'' = Some ''secret''
   \<and> main [] [''UIM_BASE_URL'' \<mapsto> ''https://uim.example:8443/'', ''UIM_USERNAME'' \<mapsto> ''admin'',
       ''UIM_PASSWORD'' \<mapsto> ''secret'']
     = Inr (Some example_client)"
  using
    startup_contract [where env = "[''UIM_BASE_URL'' \<mapsto> ''https://uim.example:8443/'',
        ''UIM_USERNAME'' \<mapsto> ''admin'']" and default_headers = "[]"
      and b = "''https://uim.example:8443/''" and u = "''admin''" and p = "''secret''"]
    startup_contract [where env = "[''UIM_BASE_URL'' \<mapsto> ''https://uim.example:8443/'',
        ''UIM_USERNAME'' \<mapsto> ''admin'', ''UIM_PASSWORD'' \<mapsto> ''secret'']"
      and default_headers = "[]"
      and b = "''https://uim.example:8443/''" and u = "''admin''" and p = "''secret''"]
  by (simp add: example_client_def py_lower_def lower_char_def)

section \<open>Headers\<close>

text \<open>
  C9, as the claim states it, fails in its last part: the header
  \<^verbatim>\<open>Content-Type: application/json\<close> is a header of the session, so a request
  without a body carries it as well, as the GET of \<^verbatim>\<open>list_devices\<close> shows.
\<close>

theorem content_type_without_body_counterexample:
  "map (\<lambda>rq. (rq_method rq, rq_json rq, header rq ''Content-Type''))
     (snd (call_tool (Some example_client) (stub_upstream 200 ''OK'' ''[]'' (PList []))
        ''list_devices'' Map.empty))
     = [(''GET'', None, Some ''application/json'')]"
  by (simp add: eval_defs)

text \<open>
  C9, amended. Every HTTP request a call sends through a client built by
  \<^verbatim>\<open>UIMClient.__init__\<close> carries both \<^verbatim>\<open>Accept: application/json\<close> and
  \<^verbatim>\<open>Content-Type: application/json\<close>, whether it has a body or not.
\<close>

theorem common_headers_on_every_request:
  "\<forall>rq \<in> set (snd (call_tool
       (Some (UIMClient_init default_headers url username password verify)) t name arguments)).
     header rq ''Accept'' = Some ''application/json''
     \<and> header rq ''Content-Type'' = Some ''application/json''"
proof
  fix rq
  assume "rq \<in> set (snd (call_tool
       (Some (UIMClient_init default_headers url username password verify)) t name arguments))"
  then have "rq_headers rq
      = s_headers (session (UIMClient_init default_headers url username password verify))"
    by (simp add: snd_call_tool requests_carry_session_headers)
  then show "header rq ''Accept'' = Some ''application/json''
     \<and> header rq ''Content-Type'' = Some ''application/json''"
    by (simp add: header_def UIMClient_init_def update_conv')
qed

theorem common_headers_on_every_request_witness:
  "build_request example_client ''PUT'' ''/alarms/A1/accept'' None None
     \<in> set (snd (call_tool (Some (UIMClient_init [] ''https://uim.example:8443/'' ''admin''
          ''secret'' True)) unreachable_upstream ''accept_alarm'' [''alarm_id'' \<mapsto> PStr ''A1'']))
   \<and> header (build_request example_client ''PUT'' ''/alarms/A1/accept'' None None) ''Accept''
     = Some ''application/json''
   \<and> header (build_request example_client ''PUT'' ''/alarms/A1/accept'' None None)
       ''Content-Type''
     = Some ''application/json''"
proof -
  have mem: "build_request example_client ''PUT'' ''/alarms/A1/accept'' None None
     \<in> set (snd (call_tool (Some (UIMClient_init [] ''https://uim.example:8443/'' ''admin''
          ''secret'' True)) unreachable_upstream ''accept_alarm'' [''alarm_id'' \<mapsto> PStr ''A1'']))"
    by (simp add: eval_defs)
  show ?thesis
    using mem
      common_headers_on_every_request [of "[]" "''https://uim.example:8443/''" "''admin''"
        "''secret''" True unreachable_upstream "''accept_alarm''"
        "[''alarm_id'' \<mapsto> PStr ''A1'']"]
    by blast
qed


end
